theory Spec2Isabelle
  imports Main "HOL-Library.Word"
begin

section \<open>Go values shared by every layer\<close>

text \<open>
  A Go \<open>error\<close> is \<open>nil\<close> or an error value, so a function returning \<open>error\<close>
  returns an \<open>error option\<close> here (\<open>None\<close> is \<open>nil\<close>).  The repository builds its
  errors with \<open>fmt.Errorf\<close> only: without the verb \<open>%w\<close> the result is a plain
  message, with it the result carries the formatted message and the wrapped cause.
\<close>

datatype error = errorString string | wrapError string error

fun Error :: "error \<Rightarrow> string" where
  "Error (errorString s) = s"
| "Error (wrapError msg cause) = msg"

text \<open>\<open>fmt.Errorf(prefix + "%w", e)\<close>: the message is the prefix followed by the
  message of the cause, and the cause stays reachable.\<close>

definition Errorf_w :: "string \<Rightarrow> error \<Rightarrow> error" where
  "Errorf_w prefix e = wrapError (prefix @ Error e) e"

type_synonym byte = "8 word"

section \<open>internal/core: the Printer port and PrintService\<close>

text \<open>
  The port \<open>Printer\<close> has the single method \<open>PrintText(text string) error\<close>.  An
  implementation is a method together with the state of its receiver, so the method is a
  function from the receiver's state and the text to the new state and the result.
\<close>

type_synonym 'p Printer = "'p \<Rightarrow> string \<Rightarrow> 'p \<times> error option"

text \<open>\<open>PrintService.PrintText\<close> (service.go): the service holds the printer; the
  empty text is refused before the printer is reached.\<close>

definition PrintService_PrintText :: "'p Printer \<Rightarrow> 'p \<Rightarrow> string \<Rightarrow> 'p \<times> error option" where
  "PrintService_PrintText printer p text =
     (if text = [] then (p, Some (errorString ''text cannot be empty''))
      else printer p text)"

text \<open>The test double of service\_test.go: it remembers the last text it printed, or
  fails with its configured error.\<close>

record mockPrinter =
  lastText :: string
  err :: "error option"

definition mockPrinter_PrintText :: "mockPrinter Printer" where
  "mockPrinter_PrintText m text =
     (if err m \<noteq> None then (m, err m)
      else (m\<lparr>lastText := text\<rparr>, None))"

section \<open>internal/adapters/printer: the stdout stand-in\<close>

text \<open>\<open>MockPrinter\<close> (mock.go) writes two lines to its logger and the text to
  standard output, and always succeeds.\<close>

record MockPrinter =
  mock_logger :: "string list"
  stdout :: "string list"

definition MockPrinter_PrintText :: "MockPrinter Printer" where
  "MockPrinter_PrintText m text =
     (m\<lparr>mock_logger := mock_logger m @
          [''=== MOCK PRINTER OUTPUT ==='', ''=== END MOCK PRINTER OUTPUT ===''],
        stdout := stdout m @ [text]\<rparr>,
      None)"

section \<open>internal/adapters/printer: the Bluetooth LE printer\<close>

subsection \<open>The Bluetooth stack, as the code sees it\<close>

text \<open>
  The library \<open>tinygo.org/x/bluetooth\<close> and the radio are outside the repository.
  What the code reads of a scan result is its advertised name, its address (through
  \<open>Address.String()\<close>) and nothing else; the result also carries the signal strength
  \<open>RSSI\<close>, an \<open>int16\<close>, which the code never reads.  A connected \<open>Device\<close> is known
  by its address; \<open>pending\<close> are the byte strings the peer has notified and that a
  reader of the notify characteristic would receive.
\<close>

record ScanResult =
  LocalName :: string
  Address :: string
  RSSI :: "16 word"

record Device =
  DeviceAddress :: string
  pending :: "byte list list"

text \<open>Every call the code makes into the stack, in the order made.  There is no
  constructor for a characteristic write or read: no code path makes one.\<close>

datatype ble_call =
    CallEnable
  | CallScan
  | CallStopScan
  | CallConnect string
  | CallDisconnect string

text \<open>
  The answers of the stack and of the radio environment, fixed for one run:
  \<^item> \<open>enable_reply\<close>: the result of \<open>adapter.Enable()\<close>;
  \<^item> \<open>scan_reply\<close>: the result of \<open>adapter.Scan\<close>, an error when scanning cannot start;
  \<^item> \<open>adverts\<close>: the advertisements handed to the scan callback, in order of arrival,
    for as long as the scan is not stopped; the list is finite, and when none of them
    matches, the scan is taken to end with the list, which is the path to "device not
    found within timeout" (whether the library's \<open>Scan\<close> returns by itself before it is
    stopped is the library's business);
  \<^item> \<open>deadline_first\<close>: whether, when both the scan deadline and the device channel are
    ready, \<open>select\<close> takes the deadline;
  \<^item> \<open>connect_reply n a\<close>: the result of the \<open>n\<close>-th call (from 0) of
    \<open>adapter.Connect\<close>, made for address \<open>a\<close>;
  \<^item> \<open>disconnect_reply d\<close>: the result of \<open>d.Disconnect()\<close>.
\<close>

record Radio =
  enable_reply :: "error option"
  scan_reply :: "error option"
  adverts :: "ScanResult list"
  deadline_first :: bool
  connect_reply :: "nat \<Rightarrow> string \<Rightarrow> error + Device"
  disconnect_reply :: "Device \<Rightarrow> error option"

subsection \<open>BLEPrinter\<close>

text \<open>The struct \<open>BLEPrinter\<close>.  The field \<open>adapter\<close> points to the process-wide
  adapter; here it holds the calls that have reached the stack.  The field \<open>logger\<close>
  holds the lines written so far; \<open>scanTimeout\<close> is a \<open>time.Duration\<close>, in
  nanoseconds.\<close>

record BLEPrinter =
  adapter :: "ble_call list"
  device :: "Device option"
  deviceName :: string
  scanTimeout :: int
  logger :: "string list"

record BLEPrinterConfig =
  DeviceName :: string
  ScanTimeout :: int
  Logger :: "string list option"

definition Println :: "string \<Rightarrow> BLEPrinter \<Rightarrow> BLEPrinter" where
  "Println line b = b\<lparr>logger := logger b @ [line]\<rparr>"

definition call :: "ble_call \<Rightarrow> BLEPrinter \<Rightarrow> BLEPrinter" where
  "call c b = b\<lparr>adapter := adapter b @ [c]\<rparr>"

text \<open>The verb \<open>%d\<close> on a length: decimal digits, most significant first.\<close>

definition digit :: "nat \<Rightarrow> char" where
  "digit n = ''0123456789'' ! n"

function Itoa :: "nat \<Rightarrow> string" where
  "Itoa n = (if n < 10 then [digit n] else Itoa (n div 10) @ [digit (n mod 10)])"
  by pat_completeness auto
termination
  by (relation "measure id") auto

declare Itoa.simps [simp del]

text \<open>\<open>NewBLEPrinter\<close>: a nil logger becomes the default logger (no line written
  yet), a zero scan timeout becomes ten seconds, and the adapter is enabled.\<close>

definition NewBLEPrinter :: "Radio \<Rightarrow> BLEPrinterConfig \<Rightarrow> error + BLEPrinter" where
  "NewBLEPrinter radio config =
     (let lg = (case Logger config of None \<Rightarrow> [] | Some l \<Rightarrow> l);
          st = (if ScanTimeout config = 0 then 10 * 1000000000 else ScanTimeout config)
      in case enable_reply radio of
           Some e \<Rightarrow> Inl (Errorf_w ''failed to enable BLE adapter: '' e)
         | None \<Rightarrow> Inr \<lparr>adapter = [CallEnable], device = None,
                        deviceName = DeviceName config, scanTimeout = st, logger = lg\<rparr>)"

text \<open>
  The scan callback of \<open>Connect\<close>, run on the advertisements in order.  Each one is
  logged; the first whose name equals the configured name is stored in
  \<open>foundDevice\<close>, and the scan is stopped there, so no later advertisement is seen.
  The result is the printer after the callbacks and \<open>foundDevice\<close> if \<open>found\<close> is set.
\<close>

fun scan :: "ScanResult list \<Rightarrow> BLEPrinter \<Rightarrow> BLEPrinter \<times> ScanResult option" where
  "scan [] b = (b, None)"
| "scan (result # rest) b =
     (let b1 = Println (''Found device: '' @ LocalName result @ '' ['' @ Address result @ '']'') b
      in if LocalName result = deviceName b1
         then (call CallStopScan b1, Some result)
         else scan rest b1)"

text \<open>\<open>performHandshake\<close>: two log lines; nothing is sent to the device and nothing
  is read from it.\<close>

definition performHandshake :: "BLEPrinter \<Rightarrow> BLEPrinter \<times> error option" where
  "performHandshake b =
     (Println ''Handshake completed (placeholder)''
        (Println ''Performing handshake with printer...'' b),
      None)"

text \<open>Whether a call into the stack is a connection attempt.\<close>

fun isConnect :: "ble_call \<Rightarrow> bool" where
  "isConnect (CallConnect a) = True"
| "isConnect c = False"

text \<open>\<open>Connect\<close>: scan for the configured name, connect once to the device found,
  store it, and run the handshake.\<close>

definition Connect :: "Radio \<Rightarrow> BLEPrinter \<Rightarrow> BLEPrinter \<times> error option" where
  "Connect radio b =
     (let b1 = call CallScan (Println (''Scanning for device: '' @ deviceName b) b)
      in case scan_reply radio of
           Some e \<Rightarrow> (b1, Some (Errorf_w ''failed to start scan: '' e))
         | None \<Rightarrow>
           (case scan (adverts radio) b1 of
              (b2, None) \<Rightarrow>
                (call CallStopScan b2, Some (errorString ''device not found within timeout''))
            | (b2, Some foundDevice) \<Rightarrow>
                (let b3 = (if deadline_first radio then call CallStopScan b2
                           else Println (''Found target device: '' @ LocalName foundDevice) b2);
                     n = length (filter isConnect (adapter b3));
                     b4 = call (CallConnect (Address foundDevice)) b3
                 in case connect_reply radio n (Address foundDevice) of
                      Inl e \<Rightarrow> (b4, Some (Errorf_w ''failed to connect to device: '' e))
                    | Inr d \<Rightarrow>
                        (let b5 = Println ''Successfully connected to printer''
                                    (b4\<lparr>device := Some d\<rparr>)
                         in case performHandshake b5 of
                              (b6, Some e) \<Rightarrow> (b6, Some (Errorf_w ''handshake failed: '' e))
                            | (b6, None) \<Rightarrow> (b6, None)))))"

text \<open>\<open>textToBitmap\<close>: one log line, then the empty byte slice and an error.\<close>

definition textToBitmap :: "BLEPrinter \<Rightarrow> string \<Rightarrow> BLEPrinter \<times> byte list \<times> error option" where
  "textToBitmap b text =
     (Println ''Converting text to bitmap (placeholder)'' b,
      [], Some (errorString ''bitmap rendering not yet implemented''))"

text \<open>\<open>sendBitmap\<close>: one log line with the number of bytes, then an error.\<close>

definition sendBitmap :: "BLEPrinter \<Rightarrow> byte list \<Rightarrow> BLEPrinter \<times> error option" where
  "sendBitmap b bitmap =
     (Println (''Sending '' @ Itoa (length bitmap) @ '' bytes to printer (placeholder)'') b,
      Some (errorString ''bitmap sending not yet implemented''))"

text \<open>\<open>BLEPrinter.PrintText\<close>: refuse when no device is stored; otherwise render,
  then send, wrapping the first failure.\<close>

definition BLEPrinter_PrintText :: "BLEPrinter Printer" where
  "BLEPrinter_PrintText b text =
     (case device b of
        None \<Rightarrow> (b, Some (errorString ''not connected to printer''))
      | Some d \<Rightarrow>
          (let b1 = Println (''Printing text: '' @ text) b
           in case textToBitmap b1 text of
                (b2, bitmap, Some e) \<Rightarrow>
                  (b2, Some (Errorf_w ''failed to convert text to bitmap: '' e))
              | (b2, bitmap, None) \<Rightarrow>
                  (case sendBitmap b2 bitmap of
                     (b3, Some e) \<Rightarrow> (b3, Some (Errorf_w ''failed to send bitmap: '' e))
                   | (b3, None) \<Rightarrow>
                       (Println ''Print job completed successfully'' b3, None))))"

text \<open>\<open>Disconnect\<close>: nothing to do without a device; otherwise disconnect it and
  forget it only when the stack reports success.\<close>

definition Disconnect :: "Radio \<Rightarrow> BLEPrinter \<Rightarrow> BLEPrinter \<times> error option" where
  "Disconnect radio b =
     (case device b of
        None \<Rightarrow> (b, None)
      | Some d \<Rightarrow>
          (let b1 = call (CallDisconnect (DeviceAddress d))
                      (Println ''Disconnecting from printer'' b)
           in case disconnect_reply radio d of
                Some e \<Rightarrow> (b1, Some (Errorf_w ''failed to disconnect: '' e))
              | None \<Rightarrow> (Println ''Disconnected successfully'' (b1\<lparr>device := None\<rparr>), None)))"

section \<open>Concrete runs\<close>

text \<open>
  A radio environment in which a phone and two printers advertise.  Both printers carry
  the configured name; the one heard second has the stronger signal.  Every connection
  attempt succeeds, and the connected device has notified the single status byte
  \<open>0xFF\<close>.
\<close>

definition office_adverts :: "ScanResult list" where
  "office_adverts =
     [\<lparr>LocalName = ''Phone'', Address = ''11:22:33:44:55:66'', RSSI = - 60\<rparr>,
      \<lparr>LocalName = ''Peripage'', Address = ''AA:BB:CC:00:00:01'', RSSI = - 80\<rparr>,
      \<lparr>LocalName = ''Peripage'', Address = ''AA:BB:CC:00:00:02'', RSSI = - 40\<rparr>]"

definition office :: Radio where
  "office =
     \<lparr>enable_reply = None, scan_reply = None, adverts = office_adverts,
      deadline_first = False,
      connect_reply = (\<lambda>n a. Inr \<lparr>DeviceAddress = a, pending = [[0xFF]]\<rparr>),
      disconnect_reply = (\<lambda>d. None)\<rparr>"

text \<open>The same environment, except that the first connection attempt is refused and
  every later one would succeed.\<close>

definition flaky_office :: Radio where
  "flaky_office =
     office\<lparr>connect_reply :=
       (\<lambda>n a. if n = 0 then Inl (errorString ''connection refused'')
              else Inr \<lparr>DeviceAddress = a, pending = [[0xFF]]\<rparr>)\<rparr>"

text \<open>The printer as \<open>NewBLEPrinter\<close> returns it for the device name \<open>Peripage\<close>,
  a ten second scan timeout and the default logger: not connected.\<close>

definition fresh :: BLEPrinter where
  "fresh = \<lparr>adapter = [CallEnable], device = None, deviceName = ''Peripage'',
            scanTimeout = 10000000000, logger = []\<rparr>"

text \<open>The printer after \<open>Connect\<close> in the office.\<close>

definition connected :: BLEPrinter where
  "connected =
     \<lparr>adapter = [CallEnable, CallScan, CallStopScan, CallConnect ''AA:BB:CC:00:00:01''],
      device = Some \<lparr>DeviceAddress = ''AA:BB:CC:00:00:01'', pending = [[0xFF]]\<rparr>,
      deviceName = ''Peripage'', scanTimeout = 10000000000,
      logger = [''Scanning for device: Peripage'',
                ''Found device: Phone [11:22:33:44:55:66]'',
                ''Found device: Peripage [AA:BB:CC:00:00:01]'',
                ''Found target device: Peripage'',
                ''Successfully connected to printer'',
                ''Performing handshake with printer...'',
                ''Handshake completed (placeholder)'']\<rparr>"

text \<open>The connected printer at the moment a first call of \<open>PrintText\<close> has passed
  its check and written its first line, and has not returned yet.\<close>

definition printing :: BLEPrinter where
  "printing = Println ''Printing text: first'' connected"

section \<open>Facts about logging, calls and the scan\<close>

lemma fresh_is_new:
  "NewBLEPrinter office \<lparr>DeviceName = ''Peripage'', ScanTimeout = 0, Logger = None\<rparr>
     = Inr fresh"
  by (simp add: NewBLEPrinter_def office_def fresh_def)

lemma connected_by_Connect:
  "Connect office fresh = (connected, None)"
  by (simp add: Connect_def office_def fresh_def connected_def office_adverts_def
        Println_def call_def performHandshake_def)

lemma Println_fields [simp]:
  "adapter (Println l b) = adapter b"
  "device (Println l b) = device b"
  "deviceName (Println l b) = deviceName b"
  "logger (Println l b) = logger b @ [l]"
  by (simp_all add: Println_def)

lemma call_fields [simp]:
  "adapter (call c b) = adapter b @ [c]"
  "device (call c b) = device b"
  "deviceName (call c b) = deviceName b"
  "logger (call c b) = logger b"
  by (simp_all add: call_def)

lemma scan_found:
  "snd (scan ads b) = find (\<lambda>r. LocalName r = deviceName b) ads"
  by (induction ads arbitrary: b) (simp_all add: Let_def)

lemma scan_attempts:
  "filter isConnect (adapter (fst (scan ads b))) = filter isConnect (adapter b)"
  by (induction ads arbitrary: b) (simp_all add: Let_def)

lemma scan_device:
  "device (fst (scan ads b)) = device b"
  by (induction ads arbitrary: b) (simp_all add: Let_def)

lemma scan_pair:
  "scan ads b = (fst (scan ads b), find (\<lambda>r. LocalName r = deviceName b) ads)"
  by (metis prod.collapse scan_found)




lemma Itoa_examples:
  "Itoa 0 = ''0''" "Itoa 48 = ''48''" "Itoa 2000 = ''2000''"
  by (simp_all add: Itoa.simps digit_def)

section \<open>PrintService: results\<close>

text \<open>
  C8.  For every non-empty text, \<open>PrintService.PrintText\<close> hands the printer's
  result to the caller unchanged: the service returns the very error value the printer
  returned (same message, same wrapped cause), and it returns \<open>nil\<close> exactly when the
  printer does.  No failure is swallowed or re-classified.
\<close>

theorem PrintService_PrintText_propagates:
  "text \<noteq> [] \<Longrightarrow>
     snd (PrintService_PrintText printer p text) = snd (printer p text) \<and>
     (snd (PrintService_PrintText printer p text) = None \<longleftrightarrow> snd (printer p text) = None)"
  by (simp add: PrintService_PrintText_def)

text \<open>The case "printer error is propagated" of the repository's tests, the
  Bluetooth printer without a connection behind the service, and the stdout stand-in,
  whose \<open>nil\<close> comes back as \<open>nil\<close>.\<close>

theorem PrintService_PrintText_propagates_witness:
  "''Test text'' \<noteq> [] \<and>
   snd (PrintService_PrintText mockPrinter_PrintText
          \<lparr>lastText = [], err = Some (errorString ''printer offline'')\<rparr> ''Test text'')
     = Some (errorString ''printer offline'') \<and>
   snd (PrintService_PrintText BLEPrinter_PrintText fresh ''Test text'')
     = Some (errorString ''not connected to printer'') \<and>
   snd (PrintService_PrintText MockPrinter_PrintText
          \<lparr>mock_logger = [], stdout = []\<rparr> ''Test text'') = None"
proof -
  have ne: "''Test text'' \<noteq> []" by simp
  show ?thesis
    using ne
      PrintService_PrintText_propagates [OF ne, of mockPrinter_PrintText
        "\<lparr>lastText = [], err = Some (errorString ''printer offline'')\<rparr>"]
      PrintService_PrintText_propagates [OF ne, of BLEPrinter_PrintText fresh]
      PrintService_PrintText_propagates [OF ne, of MockPrinter_PrintText
        "\<lparr>mock_logger = [], stdout = []\<rparr>"]
    by (simp add: mockPrinter_PrintText_def BLEPrinter_PrintText_def fresh_def
          MockPrinter_PrintText_def)
qed

text \<open>
  C9.  Called with the empty string, \<open>PrintService.PrintText\<close> returns the error
  "text cannot be empty" and leaves the printer exactly as it was, whatever the printer
  is: the printer's method is not run.  For every non-empty text the service's call is
  the printer's method applied to that very text; in particular the test double, when it
  has no configured error, ends with the given text as the last text received.
\<close>

theorem PrintService_PrintText_empty_untouched_text_passed:
  "PrintService_PrintText printer p [] = (p, Some (errorString ''text cannot be empty'')) \<and>
   (text \<noteq> [] \<longrightarrow> PrintService_PrintText printer p text = printer p text) \<and>
   (text \<noteq> [] \<longrightarrow> err m = None \<longrightarrow>
      lastText (fst (PrintService_PrintText mockPrinter_PrintText m text)) = text)"
  by (simp add: PrintService_PrintText_def mockPrinter_PrintText_def)

theorem PrintService_PrintText_empty_untouched_text_passed_witness:
  "''Hello, World!'' \<noteq> [] \<and> err \<lparr>lastText = [], err = None\<rparr> = None \<and>
   PrintService_PrintText mockPrinter_PrintText \<lparr>lastText = [], err = None\<rparr> []
     = (\<lparr>lastText = [], err = None\<rparr>, Some (errorString ''text cannot be empty'')) \<and>
   PrintService_PrintText mockPrinter_PrintText \<lparr>lastText = [], err = None\<rparr> ''Hello, World!''
     = (\<lparr>lastText = ''Hello, World!'', err = None\<rparr>, None)"
  using PrintService_PrintText_empty_untouched_text_passed
    [of mockPrinter_PrintText "\<lparr>lastText = [], err = None\<rparr>" "''Hello, World!''"
        "\<lparr>lastText = [], err = None\<rparr>"]
  by (simp add: mockPrinter_PrintText_def)

section \<open>BLEPrinter: results\<close>

text \<open>
  C10.  \<open>Disconnect\<close> is idempotent.  Without a stored device it returns \<open>nil\<close> and
  changes nothing: no call reaches the stack and no line is logged.  Whenever it returns
  \<open>nil\<close> the stored device is cleared, so that disconnecting again returns \<open>nil\<close> and
  changes nothing.
\<close>

theorem Disconnect_idempotent:
  "(device b = None \<longrightarrow> Disconnect radio b = (b, None)) \<and>
   (snd (Disconnect radio b) = None \<longrightarrow>
      device (fst (Disconnect radio b)) = None \<and>
      Disconnect radio (fst (Disconnect radio b)) = (fst (Disconnect radio b), None))"
  by (auto simp: Disconnect_def Let_def Println_def call_def split: option.splits)

theorem Disconnect_idempotent_witness:
  "device fresh = None \<and> Disconnect office fresh = (fresh, None) \<and>
   snd (Disconnect office connected) = None \<and>
   device (fst (Disconnect office connected)) = None \<and>
   Disconnect office (fst (Disconnect office connected))
     = (fst (Disconnect office connected), None)"
proof -
  have none: "device fresh = None"
    by (simp add: fresh_def)
  have ok: "snd (Disconnect office connected) = None"
    by (simp add: Disconnect_def office_def connected_def Let_def)
  show ?thesis
    using none ok Disconnect_idempotent [of fresh office]
      Disconnect_idempotent [of connected office]
    by simp
qed

text \<open>
  C1, as the specification states it: for every text, rendering succeeds and returns an
  image of \<open>rows \<times> 48\<close> bytes with at least one row, also for the empty text.  The
  code does otherwise: \<open>textToBitmap\<close> is a placeholder.  For the empty text it
  returns an error, and the byte slice it returns has length zero.
\<close>

theorem textToBitmap_empty_text_counterexample:
  "snd (snd (textToBitmap connected [])) \<noteq> None \<and>
   length (fst (snd (textToBitmap connected []))) = 0"
  by (simp add: textToBitmap_def)

text \<open>
  C1, amended: for every text, the empty one included, \<open>textToBitmap\<close> returns the
  empty byte slice together with the error "bitmap rendering not yet implemented"; it
  produces no image, and it touches neither the stack nor the stored device.
\<close>

theorem textToBitmap_not_implemented:
  "snd (textToBitmap b text) = ([], Some (errorString ''bitmap rendering not yet implemented'')) \<and>
   adapter (fst (textToBitmap b text)) = adapter b \<and>
   device (fst (textToBitmap b text)) = device b"
  by (simp add: textToBitmap_def Println_def)

text \<open>
  C2, as the specification states it: sending a 2000-byte image with packets of at most
  512 bytes writes exactly four frames, in order.  The code does otherwise:
  \<open>sendBitmap\<close> is a placeholder.  Given 2000 bytes it logs their number, makes no
  call into the Bluetooth stack at all, and returns an error.
\<close>

theorem sendBitmap_2000_bytes_counterexample:
  "length (replicate 2000 (0 :: byte)) = 2000 \<and>
   sendBitmap connected (replicate 2000 0)
     = (connected\<lparr>logger := logger connected @
                      [''Sending 2000 bytes to printer (placeholder)'']\<rparr>,
        Some (errorString ''bitmap sending not yet implemented'')) \<and>
   adapter (fst (sendBitmap connected (replicate 2000 0))) = adapter connected"
  by (simp add: sendBitmap_def Println_def Itoa.simps digit_def)

text \<open>
  C2, amended: for every image, whatever its length, \<open>sendBitmap\<close> writes no frame
  (no call reaches the Bluetooth stack, and the stored device is unchanged), logs the one
  line "Sending N bytes to printer (placeholder)" with N the length of the image in
  decimal, changes nothing else, and returns the error "bitmap sending not yet
  implemented".
\<close>

theorem sendBitmap_not_implemented:
  "sendBitmap b bitmap
     = (b\<lparr>logger := logger b @
             [''Sending '' @ Itoa (length bitmap) @ '' bytes to printer (placeholder)'']\<rparr>,
        Some (errorString ''bitmap sending not yet implemented'')) \<and>
   snd (sendBitmap b bitmap) = Some (errorString ''bitmap sending not yet implemented'') \<and>
   adapter (fst (sendBitmap b bitmap)) = adapter b \<and>
   device (fst (sendBitmap b bitmap)) = device b"
  by (simp add: sendBitmap_def Println_def)

text \<open>
  C3, as the specification states it: \<open>PrintText\<close> without a connection first runs
  discovery, connection and handshake.  The code does otherwise.  In the office, where
  \<open>Connect\<close> on the fresh printer succeeds, \<open>PrintText\<close> on the fresh printer
  returns "not connected to printer" and leaves the printer as it was: no scan was
  started and no connection attempted.
\<close>

theorem PrintText_not_connected_counterexample:
  "snd (Connect office fresh) = None \<and>
   BLEPrinter_PrintText fresh ''Hello''
     = (fresh, Some (errorString ''not connected to printer''))"
  by (simp add: Connect_def office_def fresh_def office_adverts_def Println_def call_def
        performHandshake_def BLEPrinter_PrintText_def)

text \<open>
  C3, amended: for every text, \<open>PrintText\<close> called while no device is stored fails
  at once with the error "not connected to printer", without scanning, connecting or
  logging; connecting is the caller's business, through \<open>Connect\<close>.
\<close>

theorem PrintText_not_connected_fails_at_once:
  "device b = None \<Longrightarrow>
     BLEPrinter_PrintText b text = (b, Some (errorString ''not connected to printer''))"
  by (simp add: BLEPrinter_PrintText_def)

theorem PrintText_not_connected_fails_at_once_witness:
  "device fresh = None \<and>
   BLEPrinter_PrintText fresh ''Hello''
     = (fresh, Some (errorString ''not connected to printer''))"
proof -
  have none: "device fresh = None"
    by (simp add: fresh_def)
  show ?thesis
    using none PrintText_not_connected_fails_at_once [OF none, of "''Hello''"]
    by simp
qed



text \<open>
  C5, as the specification states it: a failed connection attempt is retried, with
  exponential backoff, up to a configured count.  The code does otherwise: it has no
  retry count, no backoff and no second attempt.  In the flaky office the first attempt
  is refused and a second one would succeed; \<open>Connect\<close> makes the one attempt,
  stores no device and returns the refusal.
\<close>

theorem Connect_retry_counterexample:
  "connect_reply flaky_office 1 ''AA:BB:CC:00:00:01''
     = Inr \<lparr>DeviceAddress = ''AA:BB:CC:00:00:01'', pending = [[0xFF]]\<rparr> \<and>
   filter isConnect (adapter (fst (Connect flaky_office fresh)))
     = [CallConnect ''AA:BB:CC:00:00:01''] \<and>
   device (fst (Connect flaky_office fresh)) = None \<and>
   snd (Connect flaky_office fresh)
     = Some (wrapError ''failed to connect to device: connection refused''
               (errorString ''connection refused''))"
  by (simp add: Connect_def flaky_office_def office_def fresh_def office_adverts_def
        Println_def call_def Errorf_w_def)

text \<open>
  C5, amended: \<open>Connect\<close> makes at most one connection attempt per call, with no
  retry and no backoff; when that attempt fails, the failure is reported to the caller,
  wrapped as "failed to connect to device: ...", with the cause attached, and no device
  is stored by that call.
\<close>

theorem Connect_one_attempt_failure_reported:
  "length (filter isConnect (adapter (fst (Connect radio b))))
     \<le> Suc (length (filter isConnect (adapter b))) \<and>
   (scan_reply radio = None \<longrightarrow>
    find (\<lambda>r. LocalName r = deviceName b) (adverts radio) = Some r \<longrightarrow>
    connect_reply radio (length (filter isConnect (adapter b))) (Address r) = Inl e \<longrightarrow>
      snd (Connect radio b) = Some (Errorf_w ''failed to connect to device: '' e) \<and>
      device (fst (Connect radio b)) = device b)"
proof -
  let ?b1 = "call CallScan (Println (''Scanning for device: '' @ deviceName b) b)"
  obtain b2 where sc: "scan (adverts radio) ?b1
        = (b2, find (\<lambda>r. LocalName r = deviceName b) (adverts radio))"
    and att: "filter isConnect (adapter b2) = filter isConnect (adapter b)"
    and dev: "device b2 = device b"
    using scan_pair [of "adverts radio" ?b1] scan_attempts [of "adverts radio" ?b1]
      scan_device [of "adverts radio" ?b1]
    by simp
  show ?thesis
    unfolding Connect_def Let_def sc
    by (simp add: att dev performHandshake_def split: sum.splits option.splits)
qed

theorem Connect_one_attempt_failure_reported_witness:
  "scan_reply flaky_office = None \<and>
   find (\<lambda>r. LocalName r = deviceName fresh) (adverts flaky_office)
     = Some (office_adverts ! 1) \<and>
   connect_reply flaky_office (length (filter isConnect (adapter fresh)))
       (Address (office_adverts ! 1))
     = Inl (errorString ''connection refused'') \<and>
   length (filter isConnect (adapter (fst (Connect flaky_office fresh)))) \<le> 1 \<and>
   snd (Connect flaky_office fresh)
     = Some (Errorf_w ''failed to connect to device: '' (errorString ''connection refused'')) \<and>
   device (fst (Connect flaky_office fresh)) = None"
proof -
  have s: "scan_reply flaky_office = None"
    by (simp add: flaky_office_def office_def)
  have f: "find (\<lambda>r. LocalName r = deviceName fresh) (adverts flaky_office)
             = Some (office_adverts ! 1)"
    by (simp add: flaky_office_def office_def office_adverts_def fresh_def)
  have r: "connect_reply flaky_office (length (filter isConnect (adapter fresh)))
             (Address (office_adverts ! 1)) = Inl (errorString ''connection refused'')"
    by (simp add: flaky_office_def office_def fresh_def)
  have n: "filter isConnect (adapter fresh) = []" and d: "device fresh = None"
    by (simp_all add: fresh_def)
  show ?thesis
    using s f r n d
      Connect_one_attempt_failure_reported
        [of flaky_office fresh "office_adverts ! 1" "errorString ''connection refused''"]
    by simp
qed

text \<open>
  C6, as the specification states it: a device response outside the expected "ready"
  pattern aborts the handshake with \<open>UnexpectedResponse\<close> and the raw bytes.  The
  code does otherwise: \<open>performHandshake\<close> is a placeholder that knows no pattern and
  reads no response.  With a device that has notified the status byte \<open>0xFF\<close>, the
  handshake succeeds, and so does the \<open>Connect\<close> that runs it.
\<close>

theorem performHandshake_unexpected_response_counterexample:
  "map_option pending (device connected) = Some [[0xFF]] \<and>
   snd (performHandshake connected) = None \<and>
   Connect office fresh = (connected, None)"
  by (simp add: performHandshake_def Connect_def office_def fresh_def connected_def
        office_adverts_def Println_def call_def)

text \<open>
  C6, amended: \<open>performHandshake\<close> sends nothing to the device and reads nothing
  from it; whatever the device has sent, it logs two lines and succeeds, leaving the
  stored device and the calls made to the stack as they were.
\<close>

theorem performHandshake_always_succeeds:
  "snd (performHandshake b) = None \<and>
   device (fst (performHandshake b)) = device b \<and>
   adapter (fst (performHandshake b)) = adapter b \<and>
   logger (fst (performHandshake b))
     = logger b @ [''Performing handshake with printer...'',
                   ''Handshake completed (placeholder)'']"
  by (simp add: performHandshake_def)

text \<open>
  C7, as the specification states it: a \<open>PrintText\<close> call arriving while another
  print is in flight fails at once with \<open>Busy\<close>.  The code does otherwise: the struct
  has no field that records a print in flight, so a call sees the same printer whether or
  not another call is running, and no error of the adapter is a busy error.  Take the
  connected printer at the moment a first call has logged its "Printing text" line and
  has not returned.  A second call made then is not turned away: it logs its own line,
  goes on to render, and returns the rendering failure.
\<close>

theorem PrintText_in_flight_counterexample:
  "last (logger printing) = ''Printing text: first'' \<and>
   BLEPrinter_PrintText printing ''second''
     = (printing\<lparr>logger := logger printing @
                     [''Printing text: second'',
                      ''Converting text to bitmap (placeholder)'']\<rparr>,
        Some (wrapError
               ''failed to convert text to bitmap: bitmap rendering not yet implemented''
               (errorString ''bitmap rendering not yet implemented'')))"
  by (simp add: BLEPrinter_PrintText_def printing_def connected_def textToBitmap_def
        Println_def Errorf_w_def)

text \<open>
  C7, amended: \<open>PrintText\<close> keeps no record of a print in flight and has no busy
  error; nothing is queued.  A call made while a device is stored, be another call
  running or not, goes through the print path like any other: it logs the text, runs the
  renderer, and returns the renderer's failure wrapped as "failed to convert text to
  bitmap: ...".
\<close>

theorem PrintText_connected_runs_print_path:
  "device b = Some d \<Longrightarrow>
     BLEPrinter_PrintText b text
       = (Println ''Converting text to bitmap (placeholder)''
            (Println (''Printing text: '' @ text) b),
          Some (Errorf_w ''failed to convert text to bitmap: ''
                  (errorString ''bitmap rendering not yet implemented'')))"
  by (simp add: BLEPrinter_PrintText_def textToBitmap_def)

theorem PrintText_connected_runs_print_path_witness:
  "device printing = Some \<lparr>DeviceAddress = ''AA:BB:CC:00:00:01'', pending = [[0xFF]]\<rparr> \<and>
   snd (BLEPrinter_PrintText printing ''second'')
     = Some (Errorf_w ''failed to convert text to bitmap: ''
               (errorString ''bitmap rendering not yet implemented''))"
proof -
  have d: "device printing = Some \<lparr>DeviceAddress = ''AA:BB:CC:00:00:01'', pending = [[0xFF]]\<rparr>"
    by (simp add: printing_def connected_def)
  show ?thesis
    using d PrintText_connected_runs_print_path [OF d, of "''second''"]
    by simp
qed

end
